theory Spec2Isabelle
  imports Main "HOL-Library.Word"
begin

section \<open>The broker service of \<^verbatim>\<open>broker/service.go\<close>\<close>

text \<open>
  A shallow embedding of \<^verbatim>\<open>src/broker/service.go\<close>. Every method of \<^verbatim>\<open>Service\<close>
  becomes a function that takes the service and returns the effects it performed, in
  order, the service as the method left it, and how the call ended. The packages the
  file calls but does not contain (encoding, address, logging, serf, memberlist, tcp,
  listener) are not interpreted: a call to them is recorded as an effect, and what they
  answer is read from a record of collaborators.
\<close>

subsection \<open>Data\<close>

type_synonym payload = "8 word list"

text \<open>A Go \<^verbatim>\<open>error\<close> is represented by its message; \<^verbatim>\<open>nil\<close> is \<open>None\<close>.\<close>

type_synonym error = string

text \<open>
  Modelled from the spec: \<^verbatim>\<open>SubscriptionEvent\<close> is declared outside \<^verbatim>\<open>service.go\<close>.
  The spec gives the record as {topic, originNode}; \<^verbatim>\<open>onEvent\<close> reads the field
  \<^verbatim>\<open>Node\<close>.
\<close>

record SubscriptionEvent =
  Topic :: string
  Node :: string

text \<open>The zero value of \<^verbatim>\<open>var event SubscriptionEvent\<close>.\<close>

definition zeroEvent :: SubscriptionEvent where
  "zeroEvent = \<lparr>Topic = [], Node = []\<rparr>"

text \<open>\<^verbatim>\<open>serf.UserEvent\<close>: the fields \<^verbatim>\<open>Name\<close> and \<^verbatim>\<open>Payload\<close> that the service reads.\<close>

record UserEvent =
  ue_Name :: string
  ue_Payload :: payload

datatype EventType = EventMember | EventUser | EventQuery

text \<open>\<^verbatim>\<open>serf.Event\<close>: only a \<^verbatim>\<open>serf.UserEvent\<close> has the type \<^verbatim>\<open>EventUser\<close>.\<close>

datatype Event = UserEv UserEvent | MemberEv | QueryEv

fun EventTypeOf :: "Event \<Rightarrow> EventType" where
  "EventTypeOf (UserEv e) = EventUser"
| "EventTypeOf MemberEv = EventMember"
| "EventTypeOf QueryEv = EventQuery"

text \<open>
  Modelled from the spec: the cluster block of \<^verbatim>\<open>config.Config\<close> (seed address,
  gossip port, route port, advertise mode, pre-shared key, node name override, snapshot
  path) and the client-facing TCP port. \<^verbatim>\<open>Key\<close> stands for the result of the method
  \<^verbatim>\<open>Key()\<close>.
\<close>

record ClusterConfig =
  NodeName :: string
  Seed :: string
  Gossip :: int
  Route :: int
  AdvertiseAddr :: string
  SnapshotPath :: string
  Key :: payload

record Config =
  License :: string
  TCPPort :: int
  Cluster :: "ClusterConfig option"

text \<open>\<^verbatim>\<open>memberlist.Config\<close> and \<^verbatim>\<open>serf.Config\<close>: the fields \<^verbatim>\<open>clusterConfig\<close> writes.\<close>

record MemberlistConfig =
  m_BindPort :: int
  m_AdvertisePort :: int
  m_SecretKey :: payload
  m_AdvertiseAddr :: string

record SerfConfig =
  c_RejoinAfterLeave :: bool
  c_NodeName :: string
  c_SnapshotPath :: string
  c_MemberlistConfig :: MemberlistConfig
  c_Tags :: "string \<rightharpoonup> string"

text \<open>A channel that carries no value the service reads: nil, open or closed.\<close>

datatype chan = ChanNil | ChanOpen | ChanClosed

text \<open>
  The \<^verbatim>\<open>Service\<close> struct. \<^verbatim>\<open>cluster\<close> is \<open>None\<close> for the nil pointer and holds
  the configuration the handle was created from otherwise.

  Modelled from the spec: \<^verbatim>\<open>SubscriptionTrie\<close> is declared outside \<^verbatim>\<open>service.go\<close>;
  the spec gives it as a structure of entries keyed by (topic, origin node) with insert
  and remove.
\<close>

record Service =
  Closing :: chan
  Config :: Config
  subscriptions :: "(string \<times> string) set"
  cluster :: "SerfConfig option"
  name :: string

type_synonym Signal = int

definition SIGINT :: Signal where
  "SIGINT = 2"

definition SIGTERM :: Signal where
  "SIGTERM = 15"

text \<open>\<^verbatim>\<open>sig.String()\<close> for the two signals that \<^verbatim>\<open>OnSignal\<close> formats.\<close>

definition signalString :: "Signal \<Rightarrow> string" where
  "signalString sig =
     (if sig = SIGINT then ''interrupt''
      else if sig = SIGTERM then ''terminated''
      else ''signal'')"

subsection \<open>Effects and outcomes\<close>

text \<open>What a method does to the world outside the \<^verbatim>\<open>Service\<close> struct, in program order.\<close>

datatype effect =
    LogFlush
  | LogAction string string
  | LogError string string error
  | Printf SubscriptionEvent
  | SignalNotify "Signal list"
  | Go string
  | SerfCreate SerfConfig
  | SerfJoin "string list" bool
  | SerfUserEvent string payload bool
  | SerfLeave
  | SerfShutdown
  | TcpServeAsync int
  | ListenerNew int
  | ListenerServeAsync string
  | ListenerServe
  | CloseChan
  | OsExit int

fun isLogError :: "effect \<Rightarrow> bool" where
  "isLogError (LogError c a e) = True"
| "isLogError x = False"

text \<open>
  How a call ends: it returns a value, it panics, it ends the process with an exit
  status, or it never returns (it waits on a channel or a listener that stays silent).
\<close>

datatype 'a result = Return 'a | Panic string | Exit int | Blocked

type_synonym 'a run = "effect list \<times> Service \<times> 'a result"

definition effects :: "'a run \<Rightarrow> effect list" where
  "effects r = fst r"

definition service :: "'a run \<Rightarrow> Service" where
  "service r = fst (snd r)"

definition result :: "'a run \<Rightarrow> 'a result" where
  "result r = snd (snd r)"

definition after :: "effect list \<Rightarrow> 'a run \<Rightarrow> 'a run" where
  "after fx r = (fx @ fst r, snd r)"

definition nilDeref :: string where
  "nilDeref = ''invalid memory address or nil pointer dereference''"

text \<open>
  The collaborators. \<open>Decode\<close> gets the payload and the record it decodes into, and gives
  the record as it left it and its error. The others give the error (or value) that the
  call of that name returns.
\<close>

record 'm env =
  Fingerprint :: string
  External :: string
  Encode :: "'m \<Rightarrow> error + payload"
  Decode :: "payload \<Rightarrow> SubscriptionEvent \<Rightarrow> SubscriptionEvent \<times> error option"
  DefaultConfig :: SerfConfig
  DefaultWANConfig :: MemberlistConfig
  Create :: "SerfConfig \<Rightarrow> error option"
  JoinPeers :: "string list \<Rightarrow> error option"
  SendUserEvent :: "string \<Rightarrow> payload \<Rightarrow> bool \<Rightarrow> error option"
  ServeAsync :: "int \<Rightarrow> error option"
  NewListener :: "int \<Rightarrow> error option"
  ServeStops :: bool

subsection \<open>Formatting\<close>

text \<open>The verb \<^verbatim>\<open>%d\<close> of \<^verbatim>\<open>fmt.Sprintf\<close> on an \<^verbatim>\<open>int\<close>.\<close>

fun natDigits :: "nat \<Rightarrow> string" where
  "natDigits n =
     (if n < 10 then [''0123456789'' ! n]
      else natDigits (n div 10) @ [''0123456789'' ! (n mod 10)])"

declare natDigits.simps [simp del]

definition itoa :: "int \<Rightarrow> string" where
  "itoa i = (if i < 0 then CHR ''-'' # natDigits (nat (- i)) else natDigits (nat i))"

subsection \<open>The methods\<close>

text \<open>
  Sequencing: the second call runs on the service the first one left, when the first one
  returned.
\<close>

definition andThen :: "'a run \<Rightarrow> (Service \<Rightarrow> 'a \<Rightarrow> 'b run) \<Rightarrow> 'b run" where
  "andThen r f =
     (case r of
        (fx, s, Return v) \<Rightarrow> after fx (f s v)
      | (fx, s, Panic m) \<Rightarrow> (fx, s, Panic m)
      | (fx, s, Exit n) \<Rightarrow> (fx, s, Exit n)
      | (fx, s, Blocked) \<Rightarrow> (fx, s, Blocked))"

text \<open>
  \<^verbatim>\<open>Service.clusterConfig\<close>: the configuration built, and the service with its name
  set. Reading a field of the cluster block panics when the block is nil.
\<close>

definition clusterConfig :: "'m env \<Rightarrow> Service \<Rightarrow> Config \<Rightarrow> SerfConfig run" where
  "clusterConfig env s cfg =
     (case Cluster cfg of
        None \<Rightarrow> ([], s, Panic nilDeref)
      | Some cl \<Rightarrow>
     (let c0 = DefaultConfig env;
          c1 = c0\<lparr>c_RejoinAfterLeave := True\<rparr>;
          c2 = c1\<lparr>c_NodeName := Fingerprint env\<rparr>;
          c3 = c2\<lparr>c_SnapshotPath := SnapshotPath cl\<rparr>;
          m0 = DefaultWANConfig env;
          m1 = m0\<lparr>m_BindPort := Gossip cl\<rparr>;
          m2 = m1\<lparr>m_AdvertisePort := Gossip cl\<rparr>;
          m3 = m2\<lparr>m_SecretKey := Key cl\<rparr>;
          c4 = c3\<lparr>c_NodeName := NodeName cl\<rparr>;
          c5 = (if c_NodeName c4 = [] then c4\<lparr>c_NodeName := Fingerprint env @ itoa (Gossip cl)\<rparr>
                else c4);
          s' = s\<lparr>name := c_NodeName c5\<rparr>;
          m4 = (if AdvertiseAddr cl = ''public'' then m3\<lparr>m_AdvertiseAddr := External env\<rparr>
                else m3);
          c6 = c5\<lparr>c_MemberlistConfig := m4\<rparr>;
          c7 = c6\<lparr>c_Tags := (c_Tags c6)(''route'' \<mapsto> m_AdvertiseAddr m4 @ '':'' @ itoa (Route cl))\<rparr>
      in ([], s', Return c7)))"

text \<open>\<^verbatim>\<open>Service.Name\<close>.\<close>

definition Name :: "Service \<Rightarrow> string" where
  "Name s = name s"

text \<open>
  \<^verbatim>\<open>Service.onEvent\<close>. The value \<^verbatim>\<open>encoding.Decode\<close> returns is not bound to
  anything in either case, so only the record it filled is used.
\<close>

definition onEvent :: "'m env \<Rightarrow> Service \<Rightarrow> UserEvent \<Rightarrow> effect list \<times> Service \<times> error option" where
  "onEvent env s e =
     (if ue_Name e = ''+'' then
        (let event = fst (Decode env (ue_Payload e) zeroEvent)
         in if Node event \<noteq> Name s then ([Printf event], s, None) else ([], s, None))
      else if ue_Name e = ''-'' then
        (let event = fst (Decode env (ue_Payload e) zeroEvent)
         in if Node event \<noteq> Name s then ([Printf event], s, None) else ([], s, None))
      else ([], s, Some (''received unknown event name: '' @ ue_Name e)))"

text \<open>
  \<^verbatim>\<open>Service.clusterEventLoop\<close>. The list is what the \<^verbatim>\<open>select\<close> receives, round by
  round: the closing signal or an event of the gossip channel. When the list is used up
  the loop waits.
\<close>

datatype selected = RecvClosing | RecvEvent Event

fun clusterEventLoop :: "'m env \<Rightarrow> Service \<Rightarrow> selected list \<Rightarrow> unit run" where
  "clusterEventLoop env s [] = ([], s, Blocked)"
| "clusterEventLoop env s (RecvClosing # rest) = ([], s, Return ())"
| "clusterEventLoop env s (RecvEvent e # rest) =
     (if EventTypeOf e = EventUser then
        (case e of
           UserEv event \<Rightarrow>
             (case onEvent env s event of
                (fx, s', Some err) \<Rightarrow>
                  after (fx @ [LogError ''service'' ''event received'' err])
                    (clusterEventLoop env s' rest)
              | (fx, s', None) \<Rightarrow> after fx (clusterEventLoop env s' rest))
         | _ \<Rightarrow> ([], s, Panic ''interface conversion''))
      else clusterEventLoop env s rest)"

text \<open>\<^verbatim>\<open>Service.Close\<close>. Closing a nil or a closed channel panics.\<close>

definition Close :: "Service \<Rightarrow> unit run" where
  "Close s =
     (let fx = [LogFlush] @ (if cluster s \<noteq> None then [SerfLeave, SerfShutdown] else [])
      in case Closing s of
           ChanOpen \<Rightarrow> (fx @ [CloseChan], s\<lparr>Closing := ChanClosed\<rparr>, Return ())
         | ChanClosed \<Rightarrow> (fx, s, Panic ''close of closed channel'')
         | ChanNil \<Rightarrow> (fx, s, Panic ''close of nil channel''))"

text \<open>
  \<^verbatim>\<open>defer s.Close()\<close>: \<^verbatim>\<open>Close\<close> runs when the body has returned or panicked, not
  when the process has exited or the body never returns. A panic of \<^verbatim>\<open>Close\<close>
  replaces the way the body ended.
\<close>

definition deferClose :: "'a run \<Rightarrow> 'a run" where
  "deferClose r =
     (case r of
        (fx, s, Exit n) \<Rightarrow> (fx, s, Exit n)
      | (fx, s, Blocked) \<Rightarrow> (fx, s, Blocked)
      | (fx, s, res) \<Rightarrow>
          (case Close s of
             (fx', s', Return u) \<Rightarrow> (fx @ fx', s', res)
           | (fx', s', Panic m) \<Rightarrow> (fx @ fx', s', Panic m)
           | (fx', s', Exit n) \<Rightarrow> (fx @ fx', s', Exit n)
           | (fx', s', Blocked) \<Rightarrow> (fx @ fx', s', Blocked)))"

text \<open>\<^verbatim>\<open>Service.OnSignal\<close>.\<close>

definition OnSignal :: "Service \<Rightarrow> Signal \<Rightarrow> unit run" where
  "OnSignal s sig =
     (if sig = SIGTERM \<or> sig = SIGINT then
        (let fx = [LogAction ''service'' (''received signal '' @ signalString sig @ '', exiting...'')]
         in case Close s of
              (fx', s', Return u) \<Rightarrow> (fx @ fx' @ [OsExit 0], s', Exit 0)
            | (fx', s', res) \<Rightarrow> (fx @ fx', s', res))
      else ([], s, Return ()))"

text \<open>\<^verbatim>\<open>Service.hookSignals\<close>: the handler runs as a background unit.\<close>

definition hookSignals :: "Service \<Rightarrow> effect list \<times> Service" where
  "hookSignals s = ([SignalNotify [SIGINT, SIGTERM], Go ''hookSignals''], s)"

text \<open>\<^verbatim>\<open>Service.Join\<close>: a method call on the nil handle panics.\<close>

definition Join :: "'m env \<Rightarrow> Service \<Rightarrow> string list \<Rightarrow> error option run" where
  "Join env s peers =
     (case cluster s of
        None \<Rightarrow> ([], s, Panic nilDeref)
      | Some h \<Rightarrow> ([SerfJoin peers True], s, Return (JoinPeers env peers)))"

text \<open>\<^verbatim>\<open>Service.Broadcast\<close>.\<close>

definition Broadcast :: "'m env \<Rightarrow> Service \<Rightarrow> string \<Rightarrow> 'm \<Rightarrow> error option run" where
  "Broadcast env s nm message =
     (case Encode env message of
        Inl err \<Rightarrow> ([], s, Return (Some err))
      | Inr buffer \<Rightarrow>
          (case cluster s of
             None \<Rightarrow> ([], s, Panic nilDeref)
           | Some h \<Rightarrow>
               ([SerfUserEvent nm buffer True], s, Return (SendUserEvent env nm buffer True))))"

text \<open>
  \<^verbatim>\<open>Service.Listen\<close>, from the call of \<^verbatim>\<open>Join\<close> to the end: the statements that
  follow the block guarded by \<^verbatim>\<open>s.Config.Cluster != nil\<close>. The argument of
  \<^verbatim>\<open>Join\<close> reads the field \<^verbatim>\<open>Seed\<close> of the cluster block, and the error
  \<^verbatim>\<open>Join\<close> returns is not bound to anything. \<^verbatim>\<open>l.Serve()\<close> returns when the
  listener stops; the test that follows it reads the error of \<^verbatim>\<open>listener.New\<close>,
  which is nil there.
\<close>

definition listenServe :: "'m env \<Rightarrow> Service \<Rightarrow> error option run" where
  "listenServe env s =
     (case Cluster (Config s) of
        None \<Rightarrow> ([], s, Panic nilDeref)
      | Some cl \<Rightarrow>
          andThen (Join env s [Seed cl]) (\<lambda>s1 joined.
            after [Go ''members'', LogAction ''service'' ''starting the listener...'',
                   ListenerNew (TCPPort (Config s1))]
              (case NewListener env (TCPPort (Config s1)) of
                 Some err \<Rightarrow> ([], s1, Panic err)
               | None \<Rightarrow>
                   ([ListenerServeAsync ''MatchHTTP'', ListenerServeAsync ''MatchAny'', ListenerServe],
                    s1, if ServeStops env then Return None else Blocked))))"

text \<open>\<^verbatim>\<open>Service.Listen\<close>.\<close>

definition Listen :: "'m env \<Rightarrow> Service \<Rightarrow> error option run" where
  "Listen env s0 =
     deferClose
       (case hookSignals s0 of
          (fx0, s) \<Rightarrow>
            after fx0
              (case Cluster (Config s) of
                 Some cl \<Rightarrow>
                   andThen (clusterConfig env s (Config s)) (\<lambda>s1 c.
                     after [SerfCreate c]
                       (case Create env c of
                          Some err \<Rightarrow> ([], s1\<lparr>cluster := None\<rparr>, Return (Some err))
                        | None \<Rightarrow>
                            after [Go ''clusterEventLoop'', TcpServeAsync (Route cl)]
                              (case ServeAsync env (Route cl) of
                                 Some err \<Rightarrow> ([], s1\<lparr>cluster := Some c\<rparr>, Panic err)
                               | None \<Rightarrow> listenServe env (s1\<lparr>cluster := Some c\<rparr>))))
               | None \<Rightarrow> listenServe env s))"

subsection \<open>A two-node cluster to run the methods on\<close>

text \<open>
  A codec for the collaborator record: the subscription of node A to \<^verbatim>\<open>chat/room1\<close>
  is the payload \<open>[1]\<close>, and nothing else encodes or decodes. A failed decode leaves
  the record as it was.
\<close>

definition room1 :: SubscriptionEvent where
  "room1 = \<lparr>Topic = ''chat/room1'', Node = ''nodeA''\<rparr>"

definition sampleEncode :: "SubscriptionEvent \<Rightarrow> error + payload" where
  "sampleEncode m = (if m = room1 then Inr [1] else Inl ''cannot encode'')"

definition sampleDecode :: "payload \<Rightarrow> SubscriptionEvent \<Rightarrow> SubscriptionEvent \<times> error option" where
  "sampleDecode p ev = (if p = [1] then (room1, None) else (ev, Some ''unexpected end of payload''))"

definition sampleWAN :: MemberlistConfig where
  "sampleWAN = \<lparr>m_BindPort = 7946, m_AdvertisePort = 7946, m_SecretKey = [], m_AdvertiseAddr = []\<rparr>"

definition sampleSerf :: SerfConfig where
  "sampleSerf = \<lparr>c_RejoinAfterLeave = False, c_NodeName = ''host'', c_SnapshotPath = [],
     c_MemberlistConfig = sampleWAN, c_Tags = Map.empty\<rparr>"

definition sampleEnv :: "SubscriptionEvent env" where
  "sampleEnv = \<lparr>Fingerprint = ''a1b2c3'', External = ''203.0.113.7'',
     Encode = sampleEncode, Decode = sampleDecode,
     DefaultConfig = sampleSerf, DefaultWANConfig = sampleWAN,
     Create = (\<lambda>c. None), JoinPeers = (\<lambda>ps. None), SendUserEvent = (\<lambda>n p b. None),
     ServeAsync = (\<lambda>p. None), NewListener = (\<lambda>p. None), ServeStops = True\<rparr>"

definition blockOf :: "string \<Rightarrow> ClusterConfig" where
  "blockOf nm = \<lparr>NodeName = nm, Seed = ''10.0.0.2:7946'', Gossip = 7946, Route = 4000,
     AdvertiseAddr = ''public'', SnapshotPath = ''snap'', Key = [1, 2, 3]\<rparr>"

definition configOf :: "string \<Rightarrow> Config" where
  "configOf nm = \<lparr>License = ''lic'', TCPPort = 8080, Cluster = Some (blockOf nm)\<rparr>"

text \<open>A node of the cluster, as \<^verbatim>\<open>Listen\<close> has set it up, with the entries given.\<close>

definition nodeOf :: "string \<Rightarrow> (string \<times> string) set \<Rightarrow> Service" where
  "nodeOf nm subs = \<lparr>Closing = ChanOpen, Config = configOf nm, subscriptions = subs,
     cluster = Some sampleSerf, name = nm\<rparr>"

text \<open>A service as \<^verbatim>\<open>NewService\<close> leaves it, on a configuration with no cluster block.\<close>

definition standalone :: Service where
  "standalone = \<lparr>Closing = ChanOpen,
     Config = \<lparr>License = ''lic'', TCPPort = 8080, Cluster = None\<rparr>,
     subscriptions = {}, cluster = None, name = []\<rparr>"

definition plusRoom1 :: UserEvent where
  "plusRoom1 = \<lparr>ue_Name = ''+'', ue_Payload = [1]\<rparr>"

definition minusRoom1 :: UserEvent where
  "minusRoom1 = \<lparr>ue_Name = ''-'', ue_Payload = [1]\<rparr>"

definition garbledPlus :: UserEvent where
  "garbledPlus = \<lparr>ue_Name = ''+'', ue_Payload = [255, 0]\<rparr>"

definition pingEvent :: UserEvent where
  "pingEvent = \<lparr>ue_Name = ''ping'', ue_Payload = []\<rparr>"

definition SIGHUP :: Signal where
  "SIGHUP = 1"

section \<open>Properties\<close>

subsection \<open>Shared facts\<close>

lemma natDigits_7946: "natDigits 7946 = ''7946''"
  by (simp add: natDigits.simps [of 7946] natDigits.simps [of 794] natDigits.simps [of 79]
      natDigits.simps [of 7])

lemma onEvent_keeps_service: "fst (snd (onEvent env s e)) = s"
  by (simp add: onEvent_def Let_def)

lemma onEvent_known:
  assumes "ue_Name e = ''+'' \<or> ue_Name e = ''-''"
  shows "onEvent env s e =
    (if Node (fst (Decode env (ue_Payload e) zeroEvent)) \<noteq> Name s
     then [Printf (fst (Decode env (ue_Payload e) zeroEvent))] else [], s, None)"
  using assms by (auto simp add: onEvent_def Let_def)

lemma loop_user_event:
  "clusterEventLoop env s (RecvEvent (UserEv e) # rest) =
     (case onEvent env s e of
        (fx, s', Some err) \<Rightarrow>
          after (fx @ [LogError ''service'' ''event received'' err]) (clusterEventLoop env s' rest)
      | (fx, s', None) \<Rightarrow> after fx (clusterEventLoop env s' rest))"
  by simp

lemma zeroEvent_Node: "Node zeroEvent = []"
  by (simp add: zeroEvent_def)

lemma sample_decode_room1: "Decode sampleEnv [1] zeroEvent = (room1, None)"
  by (simp add: sampleEnv_def sampleDecode_def)

lemma sample_decode_garbled:
  "Decode sampleEnv [255, 0] zeroEvent = (zeroEvent, Some ''unexpected end of payload'')"
  by (simp add: sampleEnv_def sampleDecode_def)

subsection \<open>Cluster events\<close>

text \<open>
  C1, as the claim states it, fails. Node B applies the event \<open>{"+", chat/room1, nodeA}\<close>:
  the decoded origin is not node B, and the subscription structure holds no entry
  (chat/room1, nodeA) afterwards. Node B holding that entry applies the matching
  \<open>"-"\<close> event, and the entry is still there.
\<close>

theorem C1_no_entry_inserted_or_removed:
  "fst (Decode sampleEnv (ue_Payload plusRoom1) zeroEvent) = room1
   \<and> Node room1 \<noteq> Name (nodeOf ''nodeB'' {})
   \<and> (Topic room1, Node room1)
        \<notin> subscriptions (fst (snd (onEvent sampleEnv (nodeOf ''nodeB'' {}) plusRoom1)))
   \<and> (Topic room1, Node room1)
        \<in> subscriptions (fst (snd (onEvent sampleEnv
             (nodeOf ''nodeB'' {(''chat/room1'', ''nodeA'')}) minusRoom1)))"
  by (simp add: onEvent_keeps_service sample_decode_room1 plusRoom1_def nodeOf_def room1_def
      Name_def)

text \<open>
  C1, amended: for every cluster event named \<open>"+"\<close> or \<open>"-"\<close> whose decoded origin node
  differs from the local node identity, \<^verbatim>\<open>onEvent\<close> prints the decoded record, returns
  no error and leaves the service as it was, the subscription structure included: no
  entry is inserted and none is removed.
\<close>

theorem C1_remote_event_is_printed_only:
  assumes "ue_Name e = ''+'' \<or> ue_Name e = ''-''"
    and "Node (fst (Decode env (ue_Payload e) zeroEvent)) \<noteq> Name s"
  shows "onEvent env s e = ([Printf (fst (Decode env (ue_Payload e) zeroEvent))], s, None)"
  using assms by (simp add: onEvent_known)

theorem C1_remote_event_is_printed_only_witness:
  "(ue_Name plusRoom1 = ''+'' \<or> ue_Name plusRoom1 = ''-'')
   \<and> Node (fst (Decode sampleEnv (ue_Payload plusRoom1) zeroEvent)) \<noteq> Name (nodeOf ''nodeB'' {})
   \<and> onEvent sampleEnv (nodeOf ''nodeB'' {}) plusRoom1
       = ([Printf room1], nodeOf ''nodeB'' {}, None)"
  using C1_remote_event_is_printed_only [of plusRoom1 sampleEnv "nodeOf ''nodeB'' {}"]
  by (simp add: sample_decode_room1 plusRoom1_def nodeOf_def room1_def Name_def)

text \<open>
  C4, as the claim states it, fails. The payload of the event does not decode; \<^verbatim>\<open>onEvent\<close>
  returns no error for it, and the event loop that receives it logs no error.
\<close>

theorem C4_decode_failure_not_reported:
  "snd (Decode sampleEnv (ue_Payload garbledPlus) zeroEvent) = Some ''unexpected end of payload''
   \<and> snd (snd (onEvent sampleEnv (nodeOf ''nodeB'' {}) garbledPlus)) = None
   \<and> \<not> list_ex isLogError
         (effects (clusterEventLoop sampleEnv (nodeOf ''nodeB'' {}) [RecvEvent (UserEv garbledPlus)]))"
  by (simp add: onEvent_known sample_decode_garbled garbledPlus_def effects_def after_def
      zeroEvent_Node nodeOf_def Name_def)

text \<open>
  C4, amended: for every cluster event named \<open>"+"\<close> or \<open>"-"\<close> whose payload fails to
  decode, the error of the decoder is discarded. \<^verbatim>\<open>onEvent\<close> returns no error and
  leaves the service, the topic-matching structure included, as it was; what it prints
  is the record the decoder left, when the \<^verbatim>\<open>Node\<close> of that record is not the local
  name, and nothing otherwise. The event loop logs nothing for the event and goes on
  with the events that follow.
\<close>

theorem C4_decode_error_is_discarded:
  assumes "ue_Name e = ''+'' \<or> ue_Name e = ''-''"
    and "Decode env (ue_Payload e) zeroEvent = (ev, Some err)"
  shows "onEvent env s e = (if Node ev \<noteq> Name s then [Printf ev] else [], s, None)
    \<and> clusterEventLoop env s (RecvEvent (UserEv e) # rest)
        = after (if Node ev \<noteq> Name s then [Printf ev] else []) (clusterEventLoop env s rest)"
  using assms by (simp add: onEvent_known)

theorem C4_decode_error_is_discarded_witness:
  "(ue_Name garbledPlus = ''+'' \<or> ue_Name garbledPlus = ''-'')
   \<and> Decode sampleEnv (ue_Payload garbledPlus) zeroEvent
       = (zeroEvent, Some ''unexpected end of payload'')
   \<and> onEvent sampleEnv (nodeOf ''nodeB'' {}) garbledPlus
       = ([Printf zeroEvent], nodeOf ''nodeB'' {}, None)
   \<and> clusterEventLoop sampleEnv (nodeOf ''nodeB'' {})
         [RecvEvent (UserEv garbledPlus), RecvEvent (UserEv plusRoom1)]
       = ([Printf zeroEvent, Printf room1], nodeOf ''nodeB'' {}, Blocked)"
  using C4_decode_error_is_discarded [of garbledPlus sampleEnv zeroEvent
      "''unexpected end of payload''" "nodeOf ''nodeB'' {}" "[RecvEvent (UserEv plusRoom1)]"]
  by (simp add: sample_decode_garbled sample_decode_room1 onEvent_known garbledPlus_def
      plusRoom1_def after_def zeroEvent_Node room1_def nodeOf_def Name_def)

text \<open>
  C5: for every cluster event whose name is neither \<open>"+"\<close> nor \<open>"-"\<close>, \<^verbatim>\<open>onEvent\<close>
  returns the error "received unknown event name: " followed by the name, performs no
  effect and leaves the service unchanged; the event loop logs that error and goes on
  with the events that follow.
\<close>

theorem C5_unknown_event_name:
  assumes "ue_Name e \<noteq> ''+''" and "ue_Name e \<noteq> ''-''"
  shows "onEvent env s e = ([], s, Some (''received unknown event name: '' @ ue_Name e))
    \<and> clusterEventLoop env s (RecvEvent (UserEv e) # rest)
        = after [LogError ''service'' ''event received''
                   (''received unknown event name: '' @ ue_Name e)]
            (clusterEventLoop env s rest)"
  using assms by (simp add: onEvent_def)

theorem C5_unknown_event_name_witness:
  "ue_Name pingEvent \<noteq> ''+'' \<and> ue_Name pingEvent \<noteq> ''-''
   \<and> onEvent sampleEnv (nodeOf ''nodeB'' {}) pingEvent
       = ([], nodeOf ''nodeB'' {}, Some ''received unknown event name: ping'')
   \<and> clusterEventLoop sampleEnv (nodeOf ''nodeB'' {})
         [RecvEvent (UserEv pingEvent), RecvEvent (UserEv plusRoom1)]
       = ([LogError ''service'' ''event received'' ''received unknown event name: ping'',
           Printf room1], nodeOf ''nodeB'' {}, Blocked)"
  using C5_unknown_event_name [of pingEvent sampleEnv "nodeOf ''nodeB'' {}"
      "[RecvEvent (UserEv plusRoom1)]"]
  by (simp add: sample_decode_room1 onEvent_known pingEvent_def plusRoom1_def after_def
      room1_def nodeOf_def Name_def)

text \<open>
  C6: for every cluster event whose decoded origin node is the local node identity
  (\<^verbatim>\<open>Service.Name()\<close>), whatever its name and payload, \<^verbatim>\<open>onEvent\<close> leaves the
  subscription structure, and the whole service, as it was and performs no effect.
\<close>

theorem C6_own_event_is_discarded:
  assumes "Node (fst (Decode env (ue_Payload e) zeroEvent)) = Name s"
  shows "subscriptions (fst (snd (onEvent env s e))) = subscriptions s
    \<and> fst (snd (onEvent env s e)) = s
    \<and> fst (onEvent env s e) = []"
  using assms by (simp add: onEvent_def Let_def)

theorem C6_own_event_is_discarded_witness:
  "Node (fst (Decode sampleEnv (ue_Payload plusRoom1) zeroEvent)) = Name (nodeOf ''nodeA'' {})
   \<and> subscriptions (fst (snd (onEvent sampleEnv (nodeOf ''nodeA'' {}) plusRoom1))) = {}
   \<and> fst (snd (onEvent sampleEnv (nodeOf ''nodeA'' {}) plusRoom1)) = nodeOf ''nodeA'' {}
   \<and> fst (onEvent sampleEnv (nodeOf ''nodeA'' {}) plusRoom1) = []"
  using C6_own_event_is_discarded [of sampleEnv plusRoom1 "nodeOf ''nodeA'' {}"]
  by (simp add: sample_decode_room1 plusRoom1_def room1_def nodeOf_def Name_def)

subsection \<open>Shutdown\<close>

text \<open>
  C2, as the claim states it, fails. \<^verbatim>\<open>Close\<close> on a running node returns; \<^verbatim>\<open>Close\<close> on
  the service it left panics.
\<close>

theorem C2_second_Close_panics_on_node:
  "result (Close (nodeOf ''nodeB'' {})) = Return ()
   \<and> result (Close (service (Close (nodeOf ''nodeB'' {})))) = Panic ''close of closed channel''"
  by (simp add: Close_def result_def service_def nodeOf_def)

text \<open>
  C2, amended: \<^verbatim>\<open>Close\<close> has no guard against a second call. On a service whose
  \<^verbatim>\<open>Closing\<close> channel is open the first call returns and closes the channel. The
  second call flushes the logs and, when a cluster exists, leaves it and shuts the
  transport down once more; it then panics with "close of closed channel", and the
  channel has been closed once. The cluster event loop returns the first time it
  receives the closing signal, whatever else is pending.
\<close>

theorem C2_Close_twice:
  assumes "Closing s = ChanOpen"
  shows "result (Close s) = Return ()
    \<and> service (Close s) = s\<lparr>Closing := ChanClosed\<rparr>
    \<and> Close (service (Close s))
        = ([LogFlush] @ (if cluster s \<noteq> None then [SerfLeave, SerfShutdown] else []),
           s\<lparr>Closing := ChanClosed\<rparr>, Panic ''close of closed channel'')
    \<and> count_list (effects (Close s) @ effects (Close (service (Close s)))) CloseChan = 1
    \<and> clusterEventLoop env (service (Close s)) (RecvClosing # rest)
        = ([], service (Close s), Return ())"
  using assms by (simp add: Close_def result_def service_def effects_def)

theorem C2_Close_twice_witness:
  "Closing (nodeOf ''nodeB'' {}) = ChanOpen
   \<and> result (Close (nodeOf ''nodeB'' {})) = Return ()
   \<and> Closing (service (Close (nodeOf ''nodeB'' {}))) = ChanClosed
   \<and> Close (service (Close (nodeOf ''nodeB'' {})))
       = ([LogFlush, SerfLeave, SerfShutdown],
          (nodeOf ''nodeB'' {})\<lparr>Closing := ChanClosed\<rparr>, Panic ''close of closed channel'')
   \<and> clusterEventLoop sampleEnv (service (Close (nodeOf ''nodeB'' {})))
         [RecvClosing, RecvEvent (UserEv plusRoom1)]
       = ([], (nodeOf ''nodeB'' {})\<lparr>Closing := ChanClosed\<rparr>, Return ())"
  using C2_Close_twice [of "nodeOf ''nodeB'' {}" sampleEnv "[RecvEvent (UserEv plusRoom1)]"]
  by (simp add: nodeOf_def Close_def result_def service_def effects_def)

text \<open>
  C7: on a service whose \<^verbatim>\<open>Closing\<close> channel is open, \<^verbatim>\<open>Close\<close> performs, in this
  order: the flush of the logs; when a cluster exists, the leave and then the shutdown
  of the membership transport; the close of the \<^verbatim>\<open>Closing\<close> channel.
\<close>

theorem C7_Close_order:
  assumes "Closing s = ChanOpen"
  shows "effects (Close s) =
    (if cluster s = None then [LogFlush, CloseChan]
     else [LogFlush, SerfLeave, SerfShutdown, CloseChan])"
  using assms by (simp add: Close_def effects_def)

theorem C7_Close_order_witness:
  "Closing (nodeOf ''nodeB'' {}) = ChanOpen \<and> Closing standalone = ChanOpen
   \<and> effects (Close (nodeOf ''nodeB'' {})) = [LogFlush, SerfLeave, SerfShutdown, CloseChan]
   \<and> effects (Close standalone) = [LogFlush, CloseChan]"
  using C7_Close_order [of "nodeOf ''nodeB'' {}"] C7_Close_order [of standalone]
  by (simp add: nodeOf_def standalone_def Close_def effects_def)

text \<open>
  C9: for every signal other than SIGINT and SIGTERM, \<^verbatim>\<open>OnSignal\<close> performs no effect
  (no log entry, no call of \<^verbatim>\<open>Close\<close>, no exit of the process), leaves the service as
  it was and returns.
\<close>

theorem C9_other_signal_is_ignored:
  assumes "sig \<noteq> SIGINT" and "sig \<noteq> SIGTERM"
  shows "OnSignal s sig = ([], s, Return ())"
  using assms by (simp add: OnSignal_def)

theorem C9_other_signal_is_ignored_witness:
  "SIGHUP \<noteq> SIGINT \<and> SIGHUP \<noteq> SIGTERM
   \<and> OnSignal (nodeOf ''nodeB'' {}) SIGHUP = ([], nodeOf ''nodeB'' {}, Return ())"
  using C9_other_signal_is_ignored [of SIGHUP "nodeOf ''nodeB'' {}"]
  by (simp add: SIGHUP_def SIGINT_def SIGTERM_def)

subsection \<open>Start-up\<close>

lemma listenServe_no_block:
  "Cluster (Config s) = None \<Longrightarrow> listenServe env s = ([], s, Panic nilDeref)"
  by (simp add: listenServe_def)

lemma Listen_no_block:
  assumes "Cluster (Config s) = None" and "Closing s = ChanOpen" and "cluster s = None"
  shows "Listen env s =
    ([SignalNotify [SIGINT, SIGTERM], Go ''hookSignals'', LogFlush, CloseChan],
     s\<lparr>Closing := ChanClosed\<rparr>, Panic nilDeref)"
  using assms
  by (simp add: Listen_def hookSignals_def listenServe_no_block after_def deferClose_def
      Close_def)

text \<open>
  C3, on the code: \<^verbatim>\<open>Listen\<close> on a service whose configuration has no cluster block
  skips the guarded block, then reads \<^verbatim>\<open>s.Config.Cluster.Seed\<close> for the call of
  \<^verbatim>\<open>Join\<close>, which stands outside the guard, and panics on the nil block. The deferred
  \<^verbatim>\<open>Close\<close> runs; the client-facing listener is never opened.
\<close>

theorem C3_Listen_without_cluster_block_panics:
  "Cluster (Config standalone) = None
   \<and> Listen sampleEnv standalone =
       ([SignalNotify [SIGINT, SIGTERM], Go ''hookSignals'', LogFlush, CloseChan],
        standalone\<lparr>Closing := ChanClosed\<rparr>,
        Panic ''invalid memory address or nil pointer dereference'')
   \<and> \<not> list_ex (\<lambda>fx. fx = ListenerServe) (effects (Listen sampleEnv standalone))"
proof -
  have block: "Cluster (Config standalone) = None"
    by (simp add: standalone_def)
  have "Listen sampleEnv standalone =
      ([SignalNotify [SIGINT, SIGTERM], Go ''hookSignals'', LogFlush, CloseChan],
       standalone\<lparr>Closing := ChanClosed\<rparr>, Panic nilDeref)"
    by (rule Listen_no_block) (simp_all add: standalone_def)
  with block show ?thesis
    by (simp add: nilDeref_def effects_def)
qed

text \<open>
  C8: on a configuration with a cluster block, \<^verbatim>\<open>clusterConfig\<close> returns a
  configuration whose node name is the configured \<^verbatim>\<open>NodeName\<close> when that is not empty,
  and the address fingerprint followed by the gossip port in decimal when it is; the
  service it leaves has that name, so \<^verbatim>\<open>Name()\<close> returns it.
\<close>

theorem C8_node_name:
  assumes "Cluster cfg = Some cl"
  shows "map_result c_NodeName (result (clusterConfig env s cfg))
      = Return (if NodeName cl = [] then Fingerprint env @ itoa (Gossip cl) else NodeName cl)
    \<and> Name (service (clusterConfig env s cfg))
      = (if NodeName cl = [] then Fingerprint env @ itoa (Gossip cl) else NodeName cl)"
  using assms by (simp add: clusterConfig_def Let_def result_def service_def Name_def)

theorem C8_node_name_witness:
  "Cluster (configOf []) = Some (blockOf []) \<and> NodeName (blockOf []) = []
   \<and> Cluster (configOf ''nodeB'') = Some (blockOf ''nodeB'') \<and> NodeName (blockOf ''nodeB'') \<noteq> []
   \<and> map_result c_NodeName (result (clusterConfig sampleEnv standalone (configOf [])))
       = Return ''a1b2c37946''
   \<and> Name (service (clusterConfig sampleEnv standalone (configOf []))) = ''a1b2c37946''
   \<and> map_result c_NodeName (result (clusterConfig sampleEnv standalone (configOf ''nodeB'')))
       = Return ''nodeB''
   \<and> Name (service (clusterConfig sampleEnv standalone (configOf ''nodeB''))) = ''nodeB''"
  using C8_node_name [of "configOf []" "blockOf []" sampleEnv standalone]
    C8_node_name [of "configOf ''nodeB''" "blockOf ''nodeB''" sampleEnv standalone]
  by (simp add: configOf_def blockOf_def sampleEnv_def itoa_def natDigits_7946)

subsection \<open>Broadcast\<close>

text \<open>
  C10: when the encoding of the message fails, \<^verbatim>\<open>Broadcast\<close> returns the encoding
  error and calls nothing, the transport included. When it succeeds, on a service with a
  cluster, \<^verbatim>\<open>Broadcast\<close> makes one call of the transport's user-event primitive, with
  the name given, the encoded buffer and the coalesce flag \<open>True\<close>, and returns what the
  transport answers. The flag is not an argument of \<^verbatim>\<open>Broadcast\<close>: every user-event call
  it makes carries \<open>True\<close>.
\<close>

theorem C10_Broadcast_coalesces:
  "(Encode env message = Inl err \<longrightarrow> Broadcast env s nm message = ([], s, Return (Some err)))
   \<and> (Encode env message = Inr buffer \<longrightarrow> cluster s = Some h \<longrightarrow>
        Broadcast env s nm message
          = ([SerfUserEvent nm buffer True], s, Return (SendUserEvent env nm buffer True)))
   \<and> list_all (\<lambda>fx. case fx of SerfUserEvent n p coalesce \<Rightarrow> coalesce | _ \<Rightarrow> True)
        (effects (Broadcast env s nm message))"
  by (simp add: Broadcast_def effects_def split: sum.split option.split)

theorem C10_Broadcast_coalesces_witness:
  "Encode sampleEnv zeroEvent = Inl ''cannot encode''
   \<and> Broadcast sampleEnv (nodeOf ''nodeA'' {}) ''+'' zeroEvent
       = ([], nodeOf ''nodeA'' {}, Return (Some ''cannot encode''))
   \<and> Encode sampleEnv room1 = Inr [1]
   \<and> cluster (nodeOf ''nodeA'' {}) = Some sampleSerf
   \<and> Broadcast sampleEnv (nodeOf ''nodeA'' {}) ''+'' room1
       = ([SerfUserEvent ''+'' [1] True], nodeOf ''nodeA'' {}, Return None)"
  using C10_Broadcast_coalesces [of sampleEnv zeroEvent "''cannot encode''" "nodeOf ''nodeA'' {}"
      "''+''" "[1]" sampleSerf]
    C10_Broadcast_coalesces [of sampleEnv room1 "''cannot encode''" "nodeOf ''nodeA'' {}"
      "''+''" "[1]" sampleSerf]
  by (simp add: sampleEnv_def sampleEncode_def room1_def zeroEvent_def nodeOf_def)

end
